theory Spec2Isabelle
  imports Complex_Main "HOL-Library.Word"
begin

section \<open>Face elements of the PML Fourier-decomposed Helmholtz equations\<close>

text \<open>
  A shallow embedding of \<^verbatim>\<open>pml_fourier_decomposed_helmholtz_flux_elements.h\<close>:
  the element that applies a prescribed flux on a boundary face, and the element that
  integrates the radiated power over a face.

  Numbers. A \<^verbatim>\<open>double\<close> is a \<^typ>\<open>real\<close> and a \<^verbatim>\<open>std::complex<double>\<close> a
  \<^typ>\<open>complex\<close>: rounding, infinities and NaN are outside this development. An
  \<^verbatim>\<open>unsigned\<close> that is only counted up to is a \<^typ>\<open>nat\<close>; the one that is
  subtracted from (the nodal dimension) is a 32-bit word.

  Containers. A \<^verbatim>\<open>Vector<double>\<close> is a list. Its \<^verbatim>\<open>operator[]\<close> does not
  grow the vector: an index at or beyond the size is a range error where the library
  checks ranges and undefined where it does not, and is the result \<open>Inl OutOfRange\<close>
  here, after which nothing is said about the buffers. A \<^verbatim>\<open>Shape\<close> or
  \<^verbatim>\<open>DShape\<close> is allocated by the code with one entry per node and read only
  below that size, so it is a function of the node number.

  Collaborators. The members inherited from \<^verbatim>\<open>FiniteElement\<close> and
  \<^verbatim>\<open>FaceElement\<close> (shape functions, the Jacobian of the mapping, nodal data, the
  integration scheme) are not part of the file; they are the fields of the records
  below, so every theorem holds for whatever they compute.
\<close>

subsection \<open>Errors and containers\<close>

datatype error = OomphLibError string | OutOfRange | NullPointer

type_synonym vector = "real list"
type_synonym dense_matrix = "real list list"
type_synonym Shape = "nat \<Rightarrow> real"
type_synonym DShape = "nat \<Rightarrow> nat \<Rightarrow> real"

text \<open>\<^verbatim>\<open>v[i]\<close> read, and \<^verbatim>\<open>v[i] -= d\<close>, on a \<^verbatim>\<open>Vector<double>\<close>.\<close>

definition vector_at :: "vector \<Rightarrow> nat \<Rightarrow> error + real" where
  "vector_at v i = (if i < length v then Inr (v ! i) else Inl OutOfRange)"

definition vector_minus_eq ::
  "vector \<Rightarrow> int \<Rightarrow> real \<Rightarrow> error + vector" where
  "vector_minus_eq v i d =
     (if 0 \<le> i \<and> nat i < length v then Inr (v[nat i := v ! nat i - d])
      else Inl OutOfRange)"

text \<open>A \<^verbatim>\<open>for\<close> loop whose body may fail: the first failure leaves the loop.\<close>

primrec for_each :: "('a \<Rightarrow> 's \<Rightarrow> error + 's) \<Rightarrow> 'a list \<Rightarrow> 's \<Rightarrow> error + 's" where
  "for_each body [] st = Inr st"
| "for_each body (x # xs) st =
     (case body x st of Inl err \<Rightarrow> Inl err | Inr st' \<Rightarrow> for_each body xs st')"

text \<open>\<^verbatim>\<open>std::complex<double>\<close> times \<^verbatim>\<open>double\<close>: both parts are scaled.\<close>

definition complex_times_double :: "complex \<Rightarrow> real \<Rightarrow> complex" where
  "complex_times_double z d = Complex (Re z * d) (Im z * d)"

subsection \<open>The collaborators\<close>

text \<open>The integration scheme \<^verbatim>\<open>integral_pt()\<close>.\<close>

record Integral =
  nweight :: nat
  knot :: "nat \<Rightarrow> nat \<Rightarrow> real"
  weight :: "nat \<Rightarrow> real"

text \<open>
  The bulk element behind a \<^verbatim>\<open>FiniteElement*\<close>. The two dynamic casts of the
  file are fields: \<open>is_Equations\<close> says whether
  \<^verbatim>\<open>dynamic_cast<PMLFourierDecomposedHelmholtzEquations*>\<close> gives a pointer other than
  null, \<open>is_ELEMENT\<close> whether \<^verbatim>\<open>dynamic_cast<ELEMENT*>\<close> does.
  \<open>u_index_pml_fourier_decomposed_helmholtz\<close> is the value of the virtual
  \<^verbatim>\<open>u_index_pml_fourier_decomposed_helmholtz()\<close> of the object, which only an object
  that passes a cast can be asked for.
\<close>

record FiniteElement =
  bulk_nnode :: nat
  bulk_dim :: nat
  bulk_dshape_eulerian :: "vector \<Rightarrow> Shape \<times> DShape"
  bulk_nodal_value :: "nat \<Rightarrow> nat \<Rightarrow> real"
  u_index_pml_fourier_decomposed_helmholtz :: "nat \<times> nat"
  is_Equations :: bool
  is_ELEMENT :: bool

text \<open>
  What \<^verbatim>\<open>FaceGeometry<ELEMENT>\<close> and \<^verbatim>\<open>FaceElement\<close> give a face element once
  \<^verbatim>\<open>build_face_element\<close> has set it up. \<open>outer_unit_normal\<close> and
  \<open>interpolated_x\<close> give the vector as it is after the call.
\<close>

record FaceElement =
  nnode :: nat
  integral_pt :: Integral
  shape :: "vector \<Rightarrow> Shape"
  J_eulerian :: "vector \<Rightarrow> real"
  nodal_position :: "nat \<Rightarrow> nat \<Rightarrow> real"
  nodal_local_eqn :: "nat \<Rightarrow> nat \<Rightarrow> int"
  nodal_value :: "nat \<Rightarrow> nat \<Rightarrow> real"
  node0_ndim :: "32 word"
  outer_unit_normal :: "vector \<Rightarrow> vector"
  local_coordinate_in_bulk :: "vector \<Rightarrow> vector"
  interpolated_x :: "vector \<Rightarrow> vector"
  bulk_element_pt :: FiniteElement

subsection \<open>PMLFourierDecomposedHelmholtzFluxElement\<close>

text \<open>
  The prescribed-flux function takes the position and the flux by reference, so it is a
  function of the position and of the flux passed in; the null pointer is \<open>None\<close>.
\<close>

type_synonym PMLFourierDecomposedHelmholtzPrescribedFluxFctPt =
  "(vector \<Rightarrow> complex \<Rightarrow> complex) option"

record PMLFourierDecomposedHelmholtzFluxElement = FaceElement +
  U_index_pml_fourier_decomposed_helmholtz :: "nat \<times> nat"
  Flux_fct_pt :: PMLFourierDecomposedHelmholtzPrescribedFluxFctPt

text \<open>The broken empty constructor.\<close>

definition PMLFourierDecomposedHelmholtzFluxElement_empty ::
  "error + PMLFourierDecomposedHelmholtzFluxElement" where
  "PMLFourierDecomposedHelmholtzFluxElement_empty =
     Inl (OomphLibError
       (''Don'' @ [CHR 0x27] @ ''t call empty constructor for '' @
        ''PMLFourierDecomposedHelmholtzFluxElement''))"

text \<open>
  The constructor. \<open>build_face_element\<close> is the bulk element's member of that name:
  what it sets up in the new face element.
\<close>

definition PMLFourierDecomposedHelmholtzFluxElement_ctor ::
  "(FiniteElement \<Rightarrow> int \<Rightarrow> FaceElement) \<Rightarrow> FiniteElement
     \<Rightarrow> int \<Rightarrow> error + PMLFourierDecomposedHelmholtzFluxElement" where
  "PMLFourierDecomposedHelmholtzFluxElement_ctor build_face_element bulk_el_pt face_index =
     (let this = FaceElement.extend (build_face_element bulk_el_pt face_index)
            (PMLFourierDecomposedHelmholtzFluxElement.fields (0, 1) None)
      in if \<not> is_Equations bulk_el_pt
         then Inl (OomphLibError
                (''Bulk element must inherit from '' @
                 ''PMLFourierDecomposedHelmholtzEquations.''))
         else Inr (this\<lparr>U_index_pml_fourier_decomposed_helmholtz :=
                          u_index_pml_fourier_decomposed_helmholtz bulk_el_pt\<rparr>))"

text \<open>
  \<^verbatim>\<open>shape_and_test\<close>: the shape functions, the test functions copied from them node
  by node, and the Jacobian of the mapping.
\<close>

definition shape_and_test ::
  "'a FaceElement_scheme \<Rightarrow> vector \<Rightarrow> Shape
     \<Rightarrow> Shape \<times> Shape \<times> real" where
  "shape_and_test e s test =
     (let n_node = nnode e;
          psi = shape e s;
          test' = fold (\<lambda>i t. t(i := psi i)) [0..<n_node] test
      in (psi, test', J_eulerian e s))"

definition get_flux ::
  "'a PMLFourierDecomposedHelmholtzFluxElement_scheme \<Rightarrow> vector \<Rightarrow> complex
     \<Rightarrow> complex" where
  "get_flux e x flux =
     (case Flux_fct_pt e of
        None \<Rightarrow> Complex 0 0
      | Some fct \<Rightarrow> fct x flux)"

text \<open>The position of the integration point: the loop over the nodes and the two coordinates.\<close>

definition flux_interpolated_x ::
  "'a FaceElement_scheme \<Rightarrow> Shape \<Rightarrow> vector" where
  "flux_interpolated_x e psif =
     fold (\<lambda>l x. fold (\<lambda>i x. x[i := x ! i + nodal_position e l i * psif l]) [0..<2] x)
       [0..<nnode e] (replicate 2 0)"

text \<open>The body of the loop over the test functions, for node \<open>l\<close>.\<close>

definition flux_add_node ::
  "'a PMLFourierDecomposedHelmholtzFluxElement_scheme \<Rightarrow> complex \<Rightarrow> Shape
     \<Rightarrow> real \<Rightarrow> real \<Rightarrow> nat \<Rightarrow> vector
     \<Rightarrow> error + vector" where
  "flux_add_node e flux testf r W l residuals =
     (let local_eqn_real = nodal_local_eqn e l (fst (U_index_pml_fourier_decomposed_helmholtz e))
      in case (if local_eqn_real \<ge> 0
               then vector_minus_eq residuals local_eqn_real (Re flux * testf l * r * W)
               else Inr residuals) of
           Inl err \<Rightarrow> Inl err
         | Inr residuals \<Rightarrow>
             (let local_eqn_imag =
                    nodal_local_eqn e l (snd (U_index_pml_fourier_decomposed_helmholtz e))
              in if local_eqn_imag \<ge> 0
                 then vector_minus_eq residuals local_eqn_imag (Im flux * testf l * r * W)
                 else Inr residuals))"

text \<open>
  The body of the loop over the integration points, for point \<open>ipt\<close>. The shape and
  test functions are allocated once, before the loop; each pass writes all their entries
  before it reads them, so a pass starts here from fresh ones.
\<close>

definition flux_add_point ::
  "'a PMLFourierDecomposedHelmholtzFluxElement_scheme \<Rightarrow> nat \<Rightarrow> vector
     \<Rightarrow> error + vector" where
  "flux_add_point e ipt residuals =
     (let n_node = nnode e;
          s = map (\<lambda>i. knot (integral_pt e) ipt i) [0..<1];
          w = weight (integral_pt e) ipt;
          (psif, testf, J) = shape_and_test e s (\<lambda>_. 0);
          W = w * J;
          interpolated_x = flux_interpolated_x e psif;
          r = interpolated_x ! 0;
          flux = get_flux e interpolated_x (Complex 0 0)
      in for_each (flux_add_node e flux testf r W) [0..<n_node] residuals)"

text \<open>
  \<^verbatim>\<open>fill_in_generic_residual_contribution_pml_fourier_decomposed_helmholtz_flux\<close>.
  The residuals and the Jacobian are passed by reference: the function gives both back.
\<close>

definition fill_in_generic_residual_contribution_pml_fourier_decomposed_helmholtz_flux ::
  "'a PMLFourierDecomposedHelmholtzFluxElement_scheme \<Rightarrow> vector
     \<Rightarrow> dense_matrix \<Rightarrow> nat
     \<Rightarrow> error + vector \<times> dense_matrix" where
  "fill_in_generic_residual_contribution_pml_fourier_decomposed_helmholtz_flux e residuals jacobian flag =
     (let n_intpt = nweight (integral_pt e)
      in case for_each (flux_add_point e) [0..<n_intpt] residuals of
           Inl err \<Rightarrow> Inl err
         | Inr residuals' \<Rightarrow> Inr (residuals', jacobian))"

text \<open>
  \<^verbatim>\<open>fill_in_contribution_to_residuals\<close> passes the static
  \<^verbatim>\<open>GeneralisedElement::Dummy_matrix\<close>, a global that is an argument here and is given
  back with the residuals; \<^verbatim>\<open>fill_in_contribution_to_jacobian\<close> passes the caller's
  matrix.
\<close>

definition fill_in_contribution_to_residuals ::
  "'a PMLFourierDecomposedHelmholtzFluxElement_scheme \<Rightarrow> dense_matrix
     \<Rightarrow> vector \<Rightarrow> error + vector \<times> dense_matrix" where
  "fill_in_contribution_to_residuals e Dummy_matrix residuals =
     fill_in_generic_residual_contribution_pml_fourier_decomposed_helmholtz_flux
       e residuals Dummy_matrix 0"

definition fill_in_contribution_to_jacobian ::
  "'a PMLFourierDecomposedHelmholtzFluxElement_scheme \<Rightarrow> vector
     \<Rightarrow> dense_matrix \<Rightarrow> error + vector \<times> dense_matrix" where
  "fill_in_contribution_to_jacobian e residuals jacobian =
     fill_in_generic_residual_contribution_pml_fourier_decomposed_helmholtz_flux
       e residuals jacobian 1"

subsection \<open>PMLFourierDecomposedHelmholtzPowerMonitorElement\<close>

text \<open>
  The member \<^verbatim>\<open>U_index_pml_fourier_decomposed_helmholtz\<close> of the second class; the
  suffix tells it from the field of the flux element.
\<close>

record PMLFourierDecomposedHelmholtzPowerMonitorElement = FaceElement +
  U_index_pml_fourier_decomposed_helmholtz_pm :: "nat \<times> nat"

text \<open>
  The output file: whether it is open, and what has been written to it. A line of the
  file is the four numbers written, before they are formatted as text.
\<close>

datatype out_item = ZONE | Line real real real real

record ofstream =
  is_open :: bool
  written :: "out_item list"

text \<open>\<^verbatim>\<open>atan2(y, x)\<close> of \<^verbatim>\<open>math.h\<close>, on the reals.\<close>

definition atan2 :: "real \<Rightarrow> real \<Rightarrow> real" where
  "atan2 y x =
     (if x > 0 then arctan (y / x)
      else if x < 0 \<and> y \<ge> 0 then arctan (y / x) + pi
      else if x < 0 then arctan (y / x) - pi
      else if y > 0 then pi / 2
      else if y < 0 then - (pi / 2)
      else 0)"

definition PMLFourierDecomposedHelmholtzPowerMonitorElement_empty ::
  "error + PMLFourierDecomposedHelmholtzPowerMonitorElement" where
  "PMLFourierDecomposedHelmholtzPowerMonitorElement_empty =
     Inl (OomphLibError
       (''Don'' @ [CHR 0x27] @ ''t call empty constructor for '' @
        ''PMLFourierDecomposedHelmholtzPowerMonitorElement''))"

definition PMLFourierDecomposedHelmholtzPowerMonitorElement_ctor ::
  "(FiniteElement \<Rightarrow> int \<Rightarrow> FaceElement) \<Rightarrow> FiniteElement \<Rightarrow> int
     \<Rightarrow> error + PMLFourierDecomposedHelmholtzPowerMonitorElement" where
  "PMLFourierDecomposedHelmholtzPowerMonitorElement_ctor build_face_element bulk_el_pt face_index =
     (let this = FaceElement.extend (build_face_element bulk_el_pt face_index)
            (PMLFourierDecomposedHelmholtzPowerMonitorElement.fields (0, 1))
      in if \<not> is_Equations bulk_el_pt
         then Inl (OomphLibError
                (''Bulk element must inherit from '' @
                 ''PMLFourierDecomposedHelmholtzEquations.''))
         else Inr (this\<lparr>U_index_pml_fourier_decomposed_helmholtz_pm :=
                          u_index_pml_fourier_decomposed_helmholtz bulk_el_pt\<rparr>))"

text \<open>The gradient of the field: the loop over the bulk nodes and the directions.\<close>

definition power_interpolated_dphidx ::
  "FiniteElement \<Rightarrow> DShape \<Rightarrow> complex list" where
  "power_interpolated_dphidx bulk_elem_pt dpsi_bulk_dx =
     fold (\<lambda>l v.
        (let phi_value = Complex
               (bulk_nodal_value bulk_elem_pt l (fst (u_index_pml_fourier_decomposed_helmholtz bulk_elem_pt)))
               (bulk_nodal_value bulk_elem_pt l (snd (u_index_pml_fourier_decomposed_helmholtz bulk_elem_pt)))
         in fold (\<lambda>i v. v[i := v ! i + complex_times_double phi_value (dpsi_bulk_dx l i)])
              [0..<bulk_dim bulk_elem_pt] v))
       [0..<bulk_nnode bulk_elem_pt] (replicate (bulk_dim bulk_elem_pt) (Complex 0 0))"

text \<open>The field: the loop over the nodes of the face element.\<close>

definition power_interpolated_phi ::
  "'a PMLFourierDecomposedHelmholtzPowerMonitorElement_scheme \<Rightarrow> Shape
     \<Rightarrow> complex" where
  "power_interpolated_phi e psi =
     fold (\<lambda>l interpolated_phi.
        (let phi_value = Complex
               (nodal_value e l (fst (U_index_pml_fourier_decomposed_helmholtz_pm e)))
               (nodal_value e l (snd (U_index_pml_fourier_decomposed_helmholtz_pm e)))
         in interpolated_phi + complex_times_double phi_value (psi l)))
       [0..<nnode e] (Complex 0 0)"

text \<open>The normal derivative: the gradient against the unit normal.\<close>

definition power_dphi_dn ::
  "nat \<Rightarrow> complex list \<Rightarrow> vector \<Rightarrow> error + complex" where
  "power_dphi_dn n_dim interpolated_dphidx unit_normal =
     for_each (\<lambda>i dphi_dn.
        (case vector_at unit_normal i of
           Inl err \<Rightarrow> Inl err
         | Inr n_i \<Rightarrow> Inr (dphi_dn + complex_times_double (interpolated_dphidx ! i) n_i)))
       [0..<n_dim] (Complex 0 0)"

text \<open>The power density at an integration point.\<close>

definition power_integrand :: "complex \<Rightarrow> complex \<Rightarrow> real" where
  "power_integrand interpolated_phi dphi_dn =
     Re interpolated_phi * Im dphi_dn - Im interpolated_phi * Re dphi_dn"

text \<open>The body of the loop over the integration points, for point \<open>ipt\<close>.\<close>

definition power_add_point ::
  "'a PMLFourierDecomposedHelmholtzPowerMonitorElement_scheme \<Rightarrow> nat
     \<Rightarrow> real \<times> ofstream \<Rightarrow> error + real \<times> ofstream" where
  "power_add_point e ipt st =
     (let (power, outfile) = st;
          bulk_elem_pt = bulk_element_pt e;
          local_dim = node0_ndim e;
          s = map (\<lambda>i. knot (integral_pt e) ipt i) [0..<unat (local_dim - 1)];
          unit_normal = outer_unit_normal e s;
          w = weight (integral_pt e) ipt;
          J = J_eulerian e s;
          W = w * J;
          s_bulk = local_coordinate_in_bulk e s;
          (psi_bulk, dpsi_bulk_dx) = bulk_dshape_eulerian bulk_elem_pt s_bulk;
          psi = shape e s;
          interpolated_dphidx = power_interpolated_dphidx bulk_elem_pt dpsi_bulk_dx;
          interpolated_phi = power_interpolated_phi e psi
      in case power_dphi_dn (bulk_dim bulk_elem_pt) interpolated_dphidx unit_normal of
           Inl err \<Rightarrow> Inl err
         | Inr dphi_dn \<Rightarrow>
             (let integrand = power_integrand interpolated_phi dphi_dn;
                  x = interpolated_x e s
              in case vector_at x 0 of
                   Inl err \<Rightarrow> Inl err
                 | Inr x0 \<Rightarrow>
                     (case vector_at x 1 of
                        Inl err \<Rightarrow> Inl err
                      | Inr x1 \<Rightarrow>
                          (let theta = atan2 x0 x1;
                               outfile' =
                                 (if is_open outfile
                                  then outfile\<lparr>written :=
                                         written outfile @ [Line x0 x1 theta integrand]\<rparr>
                                  else outfile)
                           in Inr (power + pi * x0 * integrand * W, outfile')))))"

text \<open>
  \<^verbatim>\<open>global_power_contribution(std::ofstream& outfile)\<close>: the power, and the file as
  it is left. The bulk element is reached through \<^verbatim>\<open>dynamic_cast<ELEMENT*>\<close>, whose
  null pointer is not checked before it is used.
\<close>

definition global_power_contribution_outfile ::
  "'a PMLFourierDecomposedHelmholtzPowerMonitorElement_scheme \<Rightarrow> ofstream
     \<Rightarrow> error + real \<times> ofstream" where
  "global_power_contribution_outfile e outfile =
     (if \<not> is_ELEMENT (bulk_element_pt e) then Inl NullPointer
      else
        (let n_intpt = nweight (integral_pt e);
             power = 0;
             outfile' =
               (if is_open outfile then outfile\<lparr>written := written outfile @ [ZONE]\<rparr>
                else outfile)
         in for_each (power_add_point e) [0..<n_intpt] (power, outfile')))"

text \<open>
  \<^verbatim>\<open>global_power_contribution()\<close>: a default-constructed \<^verbatim>\<open>std::ofstream\<close>, which
  is not open, is passed and dropped.
\<close>

definition global_power_contribution ::
  "'a PMLFourierDecomposedHelmholtzPowerMonitorElement_scheme \<Rightarrow> error + real" where
  "global_power_contribution e =
     (let outfile = \<lparr>is_open = False, written = []\<rparr>
      in case global_power_contribution_outfile e outfile of
           Inl err \<Rightarrow> Inl err
         | Inr (result, _) \<Rightarrow> Inr result)"

subsection \<open>What the flux element is to compute\<close>

text \<open>
  The residual contribution as the specification words it, as sums over the integration
  points and the nodes, to be compared with the loops above.
\<close>

text \<open>One channel of one node: the entry of a free equation is lowered, a pinned one is skipped.\<close>

definition channel :: "int \<Rightarrow> real \<Rightarrow> nat \<Rightarrow> real" where
  "channel local_eqn d k = (if local_eqn = int k then d else 0)"

definition local_eqns_below ::
  "'a PMLFourierDecomposedHelmholtzFluxElement_scheme \<Rightarrow> nat \<Rightarrow> bool" where
  "local_eqns_below e m =
     (\<forall>l<nnode e.
        nodal_local_eqn e l (fst (U_index_pml_fourier_decomposed_helmholtz e)) < int m \<and>
        nodal_local_eqn e l (snd (U_index_pml_fourier_decomposed_helmholtz e)) < int m)"

definition spec_s :: "'a FaceElement_scheme \<Rightarrow> nat \<Rightarrow> vector" where
  "spec_s e ipt = [knot (integral_pt e) ipt 0]"

definition spec_position ::
  "'a FaceElement_scheme \<Rightarrow> nat \<Rightarrow> nat \<Rightarrow> real" where
  "spec_position e ipt i = (\<Sum>l<nnode e. nodal_position e l i * shape e (spec_s e ipt) l)"

definition spec_flux ::
  "'a PMLFourierDecomposedHelmholtzFluxElement_scheme \<Rightarrow> nat \<Rightarrow> complex" where
  "spec_flux e ipt =
     (case Flux_fct_pt e of
        None \<Rightarrow> 0
      | Some fct \<Rightarrow> fct [spec_position e ipt 0, spec_position e ipt 1] 0)"

definition spec_flux_term ::
  "'a PMLFourierDecomposedHelmholtzFluxElement_scheme \<Rightarrow> real \<Rightarrow> nat
     \<Rightarrow> nat \<Rightarrow> real" where
  "spec_flux_term e flux_part ipt l =
     flux_part * shape e (spec_s e ipt) l * spec_position e ipt 0 *
       weight (integral_pt e) ipt * J_eulerian e (spec_s e ipt)"

definition spec_flux_contribution ::
  "'a PMLFourierDecomposedHelmholtzFluxElement_scheme \<Rightarrow> nat \<Rightarrow> real" where
  "spec_flux_contribution e k =
     (\<Sum>ipt<nweight (integral_pt e). \<Sum>l<nnode e.
        channel (nodal_local_eqn e l (fst (U_index_pml_fourier_decomposed_helmholtz e)))
          (spec_flux_term e (Re (spec_flux e ipt)) ipt l) k +
        channel (nodal_local_eqn e l (snd (U_index_pml_fourier_decomposed_helmholtz e)))
          (spec_flux_term e (Im (spec_flux e ipt)) ipt l) k)"

definition spec_residuals ::
  "'a PMLFourierDecomposedHelmholtzFluxElement_scheme \<Rightarrow> vector
     \<Rightarrow> vector" where
  "spec_residuals e residuals =
     map (\<lambda>k. residuals ! k - spec_flux_contribution e k) [0..<length residuals]"

subsection \<open>What the power monitor is to compute\<close>

text \<open>
  The power as the specification words it: the field and its normal derivative as sums
  over the nodes, the integrand, and the sum over the integration points. The element is
  well formed when the cast to the bulk element succeeds and the vectors read at each
  integration point are long enough.
\<close>

definition spec_s_power :: "'a FaceElement_scheme \<Rightarrow> nat \<Rightarrow> vector" where
  "spec_s_power e ipt =
     map (\<lambda>i. knot (integral_pt e) ipt i) [0..<unat (node0_ndim e - 1)]"

definition spec_field ::
  "'a PMLFourierDecomposedHelmholtzPowerMonitorElement_scheme \<Rightarrow> nat
     \<Rightarrow> complex" where
  "spec_field e ipt =
     (\<Sum>l<nnode e.
        Complex (nodal_value e l (fst (U_index_pml_fourier_decomposed_helmholtz_pm e)))
                (nodal_value e l (snd (U_index_pml_fourier_decomposed_helmholtz_pm e))) *
        complex_of_real (shape e (spec_s_power e ipt) l))"

definition spec_gradient ::
  "'a FaceElement_scheme \<Rightarrow> nat \<Rightarrow> nat \<Rightarrow> complex" where
  "spec_gradient e ipt i =
     (let bulk = bulk_element_pt e
      in \<Sum>l<bulk_nnode bulk.
           Complex (bulk_nodal_value bulk l (fst (u_index_pml_fourier_decomposed_helmholtz bulk)))
                   (bulk_nodal_value bulk l (snd (u_index_pml_fourier_decomposed_helmholtz bulk))) *
           complex_of_real
             (snd (bulk_dshape_eulerian bulk
                (local_coordinate_in_bulk e (spec_s_power e ipt))) l i))"

definition spec_normal_derivative ::
  "'a FaceElement_scheme \<Rightarrow> nat \<Rightarrow> complex" where
  "spec_normal_derivative e ipt =
     (\<Sum>i<bulk_dim (bulk_element_pt e).
        spec_gradient e ipt i *
        complex_of_real (outer_unit_normal e (spec_s_power e ipt) ! i))"

definition spec_integrand ::
  "'a PMLFourierDecomposedHelmholtzPowerMonitorElement_scheme \<Rightarrow> nat
     \<Rightarrow> real" where
  "spec_integrand e ipt =
     Re (spec_field e ipt) * Im (spec_normal_derivative e ipt) -
     Im (spec_field e ipt) * Re (spec_normal_derivative e ipt)"

definition spec_x ::
  "'a FaceElement_scheme \<Rightarrow> nat \<Rightarrow> nat \<Rightarrow> real" where
  "spec_x e ipt i = interpolated_x e (spec_s_power e ipt) ! i"

definition spec_power_term ::
  "'a PMLFourierDecomposedHelmholtzPowerMonitorElement_scheme \<Rightarrow> nat
     \<Rightarrow> real" where
  "spec_power_term e ipt =
     pi * spec_x e ipt 0 * spec_integrand e ipt *
       weight (integral_pt e) ipt * J_eulerian e (spec_s_power e ipt)"

definition spec_power ::
  "'a PMLFourierDecomposedHelmholtzPowerMonitorElement_scheme \<Rightarrow> real" where
  "spec_power e = (\<Sum>ipt<nweight (integral_pt e). spec_power_term e ipt)"

definition spec_line ::
  "'a PMLFourierDecomposedHelmholtzPowerMonitorElement_scheme \<Rightarrow> nat
     \<Rightarrow> out_item" where
  "spec_line e ipt =
     Line (spec_x e ipt 0) (spec_x e ipt 1) (atan2 (spec_x e ipt 0) (spec_x e ipt 1))
       (spec_integrand e ipt)"

definition spec_outfile ::
  "'a PMLFourierDecomposedHelmholtzPowerMonitorElement_scheme \<Rightarrow> ofstream
     \<Rightarrow> ofstream" where
  "spec_outfile e outfile =
     (if is_open outfile
      then outfile\<lparr>written :=
             written outfile @ ZONE # map (spec_line e) [0..<nweight (integral_pt e)]\<rparr>
      else outfile)"

definition power_well_formed :: "'a FaceElement_scheme \<Rightarrow> bool" where
  "power_well_formed e =
     (is_ELEMENT (bulk_element_pt e) \<and>
      (\<forall>ipt<nweight (integral_pt e).
         bulk_dim (bulk_element_pt e) \<le> length (outer_unit_normal e (spec_s_power e ipt)) \<and>
         2 \<le> length (interpolated_x e (spec_s_power e ipt))))"

text \<open>Writing to a file that may be closed: the items are appended when it is open.\<close>

definition add_line :: "ofstream \<Rightarrow> out_item list \<Rightarrow> ofstream" where
  "add_line outfile items =
     (if is_open outfile then outfile\<lparr>written := written outfile @ items\<rparr> else outfile)"

subsection \<open>The end-to-end scenarios\<close>

text \<open>
  A bulk element with two nodes, holding the values \<open>(1, 0)\<close> and \<open>(0, 1)\<close>, whose
  second shape function has the radial derivative 2; and a face with one integration
  point of weight 1, Jacobian 1, one node with shape function 1 and value \<open>(1, 0)\<close>,
  the radial coordinate \<open>r\<close>, the normal along the radius, and the equation numbers 0
  and 1. On it the field is \<open>(1, 0)\<close> and its normal derivative \<open>(0, 2)\<close>.
\<close>

definition scenario_bulk :: FiniteElement where
  "scenario_bulk =
     \<lparr>bulk_nnode = 2, bulk_dim = 2,
      bulk_dshape_eulerian = (\<lambda>s. (\<lambda>l. 0, \<lambda>l i. if l = 1 \<and> i = 0 then 2 else 0)),
      bulk_nodal_value = (\<lambda>l i. if l = i then 1 else 0),
      u_index_pml_fourier_decomposed_helmholtz = (0, 1), is_Equations = True, is_ELEMENT = True\<rparr>"

definition scenario_face :: "real \<Rightarrow> FaceElement" where
  "scenario_face r =
     \<lparr>nnode = 1,
      integral_pt = \<lparr>nweight = 1, knot = (\<lambda>ipt i. 0), weight = (\<lambda>ipt. 1)\<rparr>,
      shape = (\<lambda>s l. 1),
      J_eulerian = (\<lambda>s. 1),
      nodal_position = (\<lambda>l i. if i = 0 then r else 0),
      nodal_local_eqn = (\<lambda>l i. int i),
      nodal_value = (\<lambda>l i. if i = 0 then 1 else 0),
      node0_ndim = 2,
      outer_unit_normal = (\<lambda>s. [1, 0]),
      local_coordinate_in_bulk = (\<lambda>s. s @ [1]),
      interpolated_x = (\<lambda>s. [r, 0]),
      bulk_element_pt = scenario_bulk\<rparr>"

definition scenario_flux_element :: PMLFourierDecomposedHelmholtzFluxElement where
  "scenario_flux_element =
     FaceElement.extend (scenario_face 2)
       (PMLFourierDecomposedHelmholtzFluxElement.fields (0, 1) (Some (\<lambda>x flux. Complex 3 (- 4))))"

definition scenario_power_element :: PMLFourierDecomposedHelmholtzPowerMonitorElement where
  "scenario_power_element =
     FaceElement.extend (scenario_face 1) (PMLFourierDecomposedHelmholtzPowerMonitorElement.fields (0, 1))"

text \<open>The same face over a bulk element whose nodal values are real.\<close>

definition scenario_real_element :: PMLFourierDecomposedHelmholtzPowerMonitorElement where
  "scenario_real_element =
     scenario_power_element
       \<lparr>bulk_element_pt := scenario_bulk\<lparr>bulk_nodal_value := \<lambda>l i. if i = 0 then 1 else 0\<rparr>\<rparr>"

section \<open>Properties\<close>

subsection \<open>Loops\<close>

lemma for_each_append:
  "for_each body (xs @ ys) st =
     (case for_each body xs st of Inl err \<Rightarrow> Inl err | Inr st' \<Rightarrow> for_each body ys st')"
  by (induction xs arbitrary: st) (auto split: sum.splits)

lemma for_each_upt_Suc:
  "for_each body [0..<Suc n] st =
     (case for_each body [0..<n] st of Inl err \<Rightarrow> Inl err | Inr st' \<Rightarrow> body n st')"
  by (simp add: for_each_append split: sum.splits)

lemma fold_copy_upt:
  "fold (\<lambda>i t. t(i := psi i)) [0..<n] test = (\<lambda>i. if i < n then psi i else test i)"
  by (induction n) (auto simp: fun_eq_iff)

lemma shape_and_test_eq:
  "shape_and_test e s test =
     (shape e s, (\<lambda>i. if i < nnode e then shape e s i else test i), J_eulerian e s)"
  by (simp add: shape_and_test_def fold_copy_upt Let_def)

lemma flux_interpolated_x_step:
  "fold (\<lambda>i x. x[i := x ! i + p i * c]) [0..<2] [a, b] = [a + p 0 * c, b + p 1 * (c::real)]"
  by (simp add: upt_rec numeral_2_eq_2)

lemma flux_interpolated_x_fold:
  "fold (\<lambda>l x. fold (\<lambda>i x. x[i := x ! i + pos l i * psif l]) [0..<2] x) [0..<n] [a, b::real] =
     [a + (\<Sum>l<n. pos l 0 * psif l), b + (\<Sum>l<n. pos l 1 * psif l)]"
  by (induction n) (simp_all add: flux_interpolated_x_step add.assoc)

lemma flux_interpolated_x_eq:
  "flux_interpolated_x e psif =
     [(\<Sum>l<nnode e. nodal_position e l 0 * psif l), (\<Sum>l<nnode e. nodal_position e l 1 * psif l)]"
  using flux_interpolated_x_fold [of "nodal_position e" psif "nnode e" 0 0]
  by (simp add: flux_interpolated_x_def numeral_2_eq_2)

lemma vector_minus_eq_Inr:
  "0 \<le> i \<Longrightarrow> i < int (length v) \<Longrightarrow>
     vector_minus_eq v i d = Inr (v[nat i := v ! nat i - d])"
  by (simp add: vector_minus_eq_def)

lemma channel_update:
  "i < int (length v) \<Longrightarrow>
     (if i \<ge> 0 then vector_minus_eq v i d else Inr v) =
       Inr (map (\<lambda>k. v ! k - channel i d k) [0..<length v])"
  by (auto simp: vector_minus_eq_def channel_def intro!: nth_equalityI)

lemma flux_add_node_eq:
  assumes "nodal_local_eqn e l (fst (U_index_pml_fourier_decomposed_helmholtz e)) < int (length v)"
    and "nodal_local_eqn e l (snd (U_index_pml_fourier_decomposed_helmholtz e)) < int (length v)"
  shows "flux_add_node e flux testf r W l v =
     Inr (map (\<lambda>k. v ! k -
            (channel (nodal_local_eqn e l (fst (U_index_pml_fourier_decomposed_helmholtz e)))
               (Re flux * testf l * r * W) k +
             channel (nodal_local_eqn e l (snd (U_index_pml_fourier_decomposed_helmholtz e)))
               (Im flux * testf l * r * W) k)) [0..<length v])"
proof -
  let ?re = "nodal_local_eqn e l (fst (U_index_pml_fourier_decomposed_helmholtz e))"
  let ?im = "nodal_local_eqn e l (snd (U_index_pml_fourier_decomposed_helmholtz e))"
  let ?v1 = "map (\<lambda>k. v ! k - channel ?re (Re flux * testf l * r * W) k) [0..<length v]"
  have 1: "(if ?re \<ge> 0 then vector_minus_eq v ?re (Re flux * testf l * r * W) else Inr v) = Inr ?v1"
    using assms(1) by (rule channel_update)
  have "?im < int (length ?v1)" using assms(2) by simp
  then have 2: "(if ?im \<ge> 0 then vector_minus_eq ?v1 ?im (Im flux * testf l * r * W) else Inr ?v1) =
      Inr (map (\<lambda>k. ?v1 ! k - channel ?im (Im flux * testf l * r * W) k) [0..<length ?v1])"
    by (rule channel_update)
  have "flux_add_node e flux testf r W l v =
      Inr (map (\<lambda>k. ?v1 ! k - channel ?im (Im flux * testf l * r * W) k) [0..<length ?v1])"
    unfolding flux_add_node_def Let_def 1 using 2 by simp
  also have "map (\<lambda>k. ?v1 ! k - channel ?im (Im flux * testf l * r * W) k) [0..<length ?v1] =
      map (\<lambda>k. v ! k - (channel ?re (Re flux * testf l * r * W) k +
                           channel ?im (Im flux * testf l * r * W) k)) [0..<length v]"
    by (auto intro!: nth_equalityI)
  finally show ?thesis .
qed

lemma for_each_subtract:
  assumes "\<And>l v. l < n \<Longrightarrow> length v = m \<Longrightarrow>
             body l v = Inr (map (\<lambda>k. v ! k - (g l k :: real)) [0..<m])"
    and "length v = m"
  shows "for_each body [0..<n] v = Inr (map (\<lambda>k. v ! k - (\<Sum>l<n. g l k)) [0..<m])"
  using assms
proof (induction n)
  case 0
  then show ?case by (auto intro!: nth_equalityI)
next
  case (Suc n)
  have "for_each body [0..<n] v = Inr (map (\<lambda>k. v ! k - (\<Sum>l<n. g l k)) [0..<m])"
    using Suc by simp
  moreover have "body n (map (\<lambda>k. v ! k - (\<Sum>l<n. g l k)) [0..<m]) =
      Inr (map (\<lambda>k. map (\<lambda>k. v ! k - (\<Sum>l<n. g l k)) [0..<m] ! k - g n k) [0..<m])"
    using Suc.prems(1) [of n] by simp
  moreover have "map (\<lambda>k. map (\<lambda>k. v ! k - (\<Sum>l<n. g l k)) [0..<m] ! k - g n k) [0..<m] =
      map (\<lambda>k. v ! k - (\<Sum>l<Suc n. g l k)) [0..<m]"
    by (auto intro!: nth_equalityI)
  ultimately show ?case
    unfolding for_each_upt_Suc by simp
qed

lemma flux_add_point_eq:
  assumes "local_eqns_below e m" and "length v = m"
  shows "flux_add_point e ipt v =
     Inr (map (\<lambda>k. v ! k - (\<Sum>l<nnode e.
        channel (nodal_local_eqn e l (fst (U_index_pml_fourier_decomposed_helmholtz e)))
          (spec_flux_term e (Re (spec_flux e ipt)) ipt l) k +
        channel (nodal_local_eqn e l (snd (U_index_pml_fourier_decomposed_helmholtz e)))
          (spec_flux_term e (Im (spec_flux e ipt)) ipt l) k)) [0..<m])"
proof -
  let ?psi = "shape e (spec_s e ipt)"
  let ?testf = "\<lambda>i. if i < nnode e then ?psi i else 0"
  let ?W = "weight (integral_pt e) ipt * J_eulerian e (spec_s e ipt)"
  let ?x = "[spec_position e ipt 0, spec_position e ipt 1]"
  let ?flux = "get_flux e ?x (Complex 0 0)"
  let ?re = "\<lambda>l. nodal_local_eqn e l (fst (U_index_pml_fourier_decomposed_helmholtz e))"
  let ?im = "\<lambda>l. nodal_local_eqn e l (snd (U_index_pml_fourier_decomposed_helmholtz e))"
  have x: "flux_interpolated_x e ?psi = ?x"
    by (simp add: flux_interpolated_x_eq spec_position_def)
  have flux: "?flux = spec_flux e ipt"
    by (simp add: get_flux_def spec_flux_def zero_complex.code split: option.splits)
  have unfold: "flux_add_point e ipt v =
      for_each (flux_add_node e ?flux ?testf (?x ! 0) ?W) [0..<nnode e] v"
    unfolding x [symmetric] spec_s_def
    by (simp add: flux_add_point_def shape_and_test_eq Let_def)
  have body: "flux_add_node e ?flux ?testf (?x ! 0) ?W l u =
      Inr (map (\<lambda>k. u ! k -
             (channel (?re l) (spec_flux_term e (Re (spec_flux e ipt)) ipt l) k +
              channel (?im l) (spec_flux_term e (Im (spec_flux e ipt)) ipt l) k)) [0..<m])"
    if "l < nnode e" "length u = m" for l u
  proof -
    have "?re l < int (length u)" "?im l < int (length u)"
      using assms(1) that by (simp_all add: local_eqns_below_def)
    then show ?thesis
      unfolding flux using that by (simp add: flux_add_node_eq spec_flux_term_def mult.assoc)
  qed
  show ?thesis
    unfolding unfold using body assms(2) by (rule for_each_subtract)
qed

lemma fill_in_generic_eq:
  assumes "local_eqns_below e (length residuals)"
  shows "fill_in_generic_residual_contribution_pml_fourier_decomposed_helmholtz_flux
           e residuals jacobian flag = Inr (spec_residuals e residuals, jacobian)"
proof -
  have "for_each (flux_add_point e) [0..<nweight (integral_pt e)] residuals =
      Inr (spec_residuals e residuals)"
    unfolding spec_residuals_def spec_flux_contribution_def
    by (rule for_each_subtract [OF flux_add_point_eq [OF assms]]) simp_all
  then show ?thesis
    by (simp add: fill_in_generic_residual_contribution_pml_fourier_decomposed_helmholtz_flux_def)
qed

lemmas scenario_defs =
  scenario_flux_element_def scenario_power_element_def scenario_face_def scenario_bulk_def
  FaceElement.defs PMLFourierDecomposedHelmholtzFluxElement.defs PMLFourierDecomposedHelmholtzPowerMonitorElement.defs

lemma for_each_preserves:
  assumes "\<And>x st st'. body x st = Inr st' \<Longrightarrow> f st' = f st"
    and "for_each body xs st = Inr st'"
  shows "f st' = f st"
  using assms(2)
proof (induction xs arbitrary: st)
  case Nil
  then show ?case by simp
next
  case (Cons x xs)
  then obtain st1 where 1: "body x st = Inr st1" and 2: "for_each body xs st1 = Inr st'"
    by (auto split: sum.splits)
  from Cons.IH [OF 2] assms(1) [OF 1] show ?case by simp
qed

lemma vector_minus_eq_frame:
  "vector_minus_eq v i d = Inr v' \<Longrightarrow> length v' = length v \<and> (i \<noteq> int k \<longrightarrow> v' ! k = v ! k)"
  by (auto simp: vector_minus_eq_def split: if_splits)

lemma vector_minus_eq_zero:
  "vector_minus_eq v i 0 = Inr v' \<Longrightarrow> v' = v"
  by (auto simp: vector_minus_eq_def split: if_splits)

lemma flux_add_node_frame:
  assumes "flux_add_node e flux testf r W l v = Inr v'"
  shows "length v' = length v"
    and "nodal_local_eqn e l (fst (U_index_pml_fourier_decomposed_helmholtz e)) \<noteq> int k \<Longrightarrow>
         nodal_local_eqn e l (snd (U_index_pml_fourier_decomposed_helmholtz e)) \<noteq> int k \<Longrightarrow>
         v' ! k = v ! k"
  using assms
  by (auto simp: flux_add_node_def Let_def split: sum.splits if_splits
      dest!: vector_minus_eq_frame [where k = k])

lemma flux_add_node_zero:
  assumes "flux_add_node e 0 testf r W l v = Inr v'"
  shows "v' = v"
  using assms
  by (auto simp: flux_add_node_def Let_def split: sum.splits if_splits
      dest!: vector_minus_eq_zero)

lemma flux_add_node_pinned:
  assumes "nodal_local_eqn e l (fst (U_index_pml_fourier_decomposed_helmholtz e)) < 0"
    and "nodal_local_eqn e l (snd (U_index_pml_fourier_decomposed_helmholtz e)) < 0"
  shows "flux_add_node e flux testf r W l v = Inr v"
  using assms by (simp add: flux_add_node_def)

lemma for_each_skip:
  assumes "\<And>x. x \<in> set xs \<Longrightarrow> body x st = Inr st"
  shows "for_each body xs st = Inr st"
  using assms by (induction xs) simp_all

lemma flux_add_point_unfold:
  "flux_add_point e ipt v =
     for_each (flux_add_node e
        (get_flux e (flux_interpolated_x e (shape e [knot (integral_pt e) ipt 0])) (Complex 0 0))
        (\<lambda>i. if i < nnode e then shape e [knot (integral_pt e) ipt 0] i else 0)
        (flux_interpolated_x e (shape e [knot (integral_pt e) ipt 0]) ! 0)
        (weight (integral_pt e) ipt * J_eulerian e [knot (integral_pt e) ipt 0]))
       [0..<nnode e] v"
  by (simp add: flux_add_point_def shape_and_test_eq Let_def)

lemma flux_add_point_frame:
  assumes "flux_add_point e ipt v = Inr v'"
    and "\<forall>l<nnode e.
           nodal_local_eqn e l (fst (U_index_pml_fourier_decomposed_helmholtz e)) \<noteq> int k \<and>
           nodal_local_eqn e l (snd (U_index_pml_fourier_decomposed_helmholtz e)) \<noteq> int k"
  shows "length v' = length v \<and> v' ! k = v ! k"
proof -
  let ?P = "\<lambda>l. l < nnode e"
  let ?body = "\<lambda>l u. if l < nnode e then
      flux_add_node e
        (get_flux e (flux_interpolated_x e (shape e [knot (integral_pt e) ipt 0])) (Complex 0 0))
        (\<lambda>i. if i < nnode e then shape e [knot (integral_pt e) ipt 0] i else 0)
        (flux_interpolated_x e (shape e [knot (integral_pt e) ipt 0]) ! 0)
        (weight (integral_pt e) ipt * J_eulerian e [knot (integral_pt e) ipt 0]) l u
      else Inr u"
  have cong: "for_each body xs u = for_each (\<lambda>l u. if l < n then body l u else Inr u) xs u"
    if "\<forall>x\<in>set xs. x < n" for body :: "nat \<Rightarrow> vector \<Rightarrow> error + vector" and xs u n
    using that by (induction xs arbitrary: u) (auto split: sum.splits)
  have "for_each ?body [0..<nnode e] v = Inr v'"
    using assms(1) unfolding flux_add_point_unfold
    by (subst (asm) cong [where n = "nnode e"]) simp_all
  moreover have "(length u', u' ! k) = (length u, u ! k)" if "?body l u = Inr u'" for l u u'
    using that assms(2)
      flux_add_node_frame(1) [where l = l and e = e and v = u and v' = u']
      flux_add_node_frame(2) [where k = k and l = l and e = e and v = u and v' = u']
    by (auto split: if_splits)
  ultimately have "(length v', v' ! k) = (length v, v ! k)"
    by (rule for_each_preserves [rotated])
  then show ?thesis by simp
qed

lemma fill_in_generic_frame:
  assumes "fill_in_generic_residual_contribution_pml_fourier_decomposed_helmholtz_flux
             e residuals jacobian flag = Inr (r', j')"
    and "\<forall>l<nnode e.
           nodal_local_eqn e l (fst (U_index_pml_fourier_decomposed_helmholtz e)) \<noteq> int k \<and>
           nodal_local_eqn e l (snd (U_index_pml_fourier_decomposed_helmholtz e)) \<noteq> int k"
  shows "length r' = length residuals \<and> r' ! k = residuals ! k"
proof -
  have 1: "for_each (flux_add_point e) [0..<nweight (integral_pt e)] residuals = Inr r'"
    using assms(1)
    by (auto simp: fill_in_generic_residual_contribution_pml_fourier_decomposed_helmholtz_flux_def
        split: sum.splits)
  have "(length u', u' ! k) = (length u, u ! k)" if "flux_add_point e ipt u = Inr u'" for ipt u u'
    using flux_add_point_frame [OF that assms(2)] by simp
  then have "(length r', r' ! k) = (length residuals, residuals ! k)"
    using 1 by (rule for_each_preserves)
  then show ?thesis by simp
qed

lemma fill_in_generic_jacobian:
  "fill_in_generic_residual_contribution_pml_fourier_decomposed_helmholtz_flux
     e residuals jacobian flag = Inr (r', j') \<Longrightarrow> j' = jacobian"
  by (auto simp: fill_in_generic_residual_contribution_pml_fourier_decomposed_helmholtz_flux_def
      split: sum.splits)

lemma fill_in_generic_pinned:
  assumes "\<forall>l<nnode e.
           nodal_local_eqn e l (fst (U_index_pml_fourier_decomposed_helmholtz e)) < 0 \<and>
           nodal_local_eqn e l (snd (U_index_pml_fourier_decomposed_helmholtz e)) < 0"
  shows "fill_in_generic_residual_contribution_pml_fourier_decomposed_helmholtz_flux
           e residuals jacobian flag = Inr (residuals, jacobian)"
proof -
  have "flux_add_point e ipt residuals = Inr residuals" for ipt
    unfolding flux_add_point_unfold
    using assms by (intro for_each_skip flux_add_node_pinned) simp_all
  then have "for_each (flux_add_point e) [0..<nweight (integral_pt e)] residuals = Inr residuals"
    by (intro for_each_skip)
  then show ?thesis
    by (simp add: fill_in_generic_residual_contribution_pml_fourier_decomposed_helmholtz_flux_def)
qed

lemma fill_in_generic_null_flux:
  assumes "Flux_fct_pt e = None"
    and "fill_in_generic_residual_contribution_pml_fourier_decomposed_helmholtz_flux
           e residuals jacobian flag = Inr (r', j')"
  shows "r' = residuals"
proof -
  have 1: "for_each (flux_add_point e) [0..<nweight (integral_pt e)] residuals = Inr r'"
    using assms(2)
    by (auto simp: fill_in_generic_residual_contribution_pml_fourier_decomposed_helmholtz_flux_def
        split: sum.splits)
  have flux: "get_flux e x f = 0" for x f
    using assms(1) by (simp add: get_flux_def zero_complex.code)
  have "u' = u" if "flux_add_point e ipt u = Inr u'" for ipt u u'
    using that unfolding flux_add_point_unfold flux
    by (rule for_each_preserves [where f = "\<lambda>u. u", rotated]) (rule flux_add_node_zero)
  then show ?thesis
    using 1 by (rule for_each_preserves [where f = "\<lambda>u. u"])
qed

lemma spec_residuals_null_flux:
  assumes "Flux_fct_pt e = None"
  shows "spec_flux_contribution e k = 0" and "spec_residuals e residuals = residuals"
proof -
  show 0: "spec_flux_contribution e k = 0" for k
    using assms
    by (simp add: spec_flux_contribution_def spec_flux_def spec_flux_term_def channel_def)
  show "spec_residuals e residuals = residuals"
    by (auto simp: spec_residuals_def 0 intro!: nth_equalityI)
qed

subsection \<open>The flux element\<close>

text \<open>
  Claim C1. When the local equation numbers lie within the residual vector, the call
  gives the vector in which entry \<open>k\<close> is lowered by the sum, over the integration
  points and the nodes whose real (imaginary) equation number is \<open>k\<close>, of the real
  (imaginary) part of the flux times the test function, the radial coordinate, the weight
  and the Jacobian. In the scenario (one point, weight 1, Jacobian 1, one node with test
  function 1, radius 2, flux \<open>(3, -4)\<close>, equations 0 and 1) entry 0 is lowered by 6
  and entry 1 raised by 8.
\<close>

theorem flux_residual_contribution:
  "(local_eqns_below e (length residuals) \<longrightarrow>
      fill_in_contribution_to_residuals e Dummy_matrix residuals =
        Inr (spec_residuals e residuals, Dummy_matrix)) \<and>
   fill_in_contribution_to_residuals scenario_flux_element Dummy_matrix [r0, r1] =
     Inr ([r0 - 6, r1 + 8], Dummy_matrix)"
proof
  show "local_eqns_below e (length residuals) \<longrightarrow>
      fill_in_contribution_to_residuals e Dummy_matrix residuals =
        Inr (spec_residuals e residuals, Dummy_matrix)"
    by (simp add: fill_in_contribution_to_residuals_def fill_in_generic_eq)
  show "fill_in_contribution_to_residuals scenario_flux_element Dummy_matrix [r0, r1] =
     Inr ([r0 - 6, r1 + 8], Dummy_matrix)"
    by (simp add: fill_in_contribution_to_residuals_def
        fill_in_generic_residual_contribution_pml_fourier_decomposed_helmholtz_flux_def
        flux_add_point_def flux_add_node_def shape_and_test_def flux_interpolated_x_def
        get_flux_def vector_minus_eq_def scenario_defs upt_rec)
qed

theorem flux_residual_contribution_witness:
  "local_eqns_below scenario_flux_element (length [0, 0 :: real]) \<and>
   spec_residuals scenario_flux_element [0, 0] = [- 6, 8] \<and>
   fill_in_contribution_to_residuals scenario_flux_element [] [0, 0] = Inr ([- 6, 8], [])"
proof -
  have 1: "local_eqns_below scenario_flux_element (length [0, 0 :: real])"
    by (simp add: local_eqns_below_def scenario_defs)
  have 2: "spec_residuals scenario_flux_element [0, 0] = [- 6, 8]"
    by (simp add: spec_residuals_def spec_flux_contribution_def spec_flux_term_def
        spec_flux_def spec_position_def spec_s_def channel_def scenario_defs upt_rec)
  from flux_residual_contribution [where e = scenario_flux_element and residuals = "[0, 0]"
      and Dummy_matrix = "[]" and ?r0.0 = 0 and ?r1.0 = 0] 1 2
  show ?thesis by simp
qed

text \<open>
  Claim C3. \<^verbatim>\<open>fill_in_contribution_to_jacobian\<close> adds nothing to the Jacobian:
  whenever it returns, the matrix is the one passed in, so a zero matrix comes back as a
  zero matrix; and it returns whenever the local equation numbers lie within the residual
  vector.
\<close>

theorem jacobian_contribution_zero:
  "(\<forall>r' j'. fill_in_contribution_to_jacobian e residuals jacobian = Inr (r', j') \<longrightarrow>
      j' = jacobian \<and>
      ((\<forall>row\<in>set jacobian. \<forall>a\<in>set row. a = 0) \<longrightarrow> (\<forall>row\<in>set j'. \<forall>a\<in>set row. a = 0))) \<and>
   (local_eqns_below e (length residuals) \<longrightarrow>
      fill_in_contribution_to_jacobian e residuals jacobian =
        Inr (spec_residuals e residuals, jacobian))"
  by (auto simp: fill_in_contribution_to_jacobian_def fill_in_generic_eq
      dest: fill_in_generic_jacobian)

theorem jacobian_contribution_zero_witness:
  "local_eqns_below scenario_flux_element (length [0, 0 :: real]) \<and>
   fill_in_contribution_to_jacobian scenario_flux_element [0, 0] [[0, 0], [0, 0]] =
     Inr ([- 6, 8], [[0, 0], [0, 0]])"
proof -
  have 1: "local_eqns_below scenario_flux_element (length [0, 0 :: real])"
    by (simp add: local_eqns_below_def scenario_defs)
  have 2: "spec_residuals scenario_flux_element [0, 0] = [- 6, 8]"
    by (simp add: spec_residuals_def spec_flux_contribution_def spec_flux_term_def
        spec_flux_def spec_position_def spec_s_def channel_def scenario_defs upt_rec)
  from jacobian_contribution_zero [where e = scenario_flux_element and residuals = "[0, 0]"
      and jacobian = "[[0, 0], [0, 0]]"] 1 2
  show ?thesis by simp
qed

text \<open>
  Claim C4. With a null flux function the flux is the complex zero at every position, the
  contribution to every residual entry is zero, and the call gives back the residual
  vector as it was passed in, in the real and in the imaginary channel.
\<close>

theorem null_flux_contributes_nothing:
  assumes "Flux_fct_pt e = None"
  shows "get_flux e x flux = 0 \<and>
    (\<forall>k. spec_flux_contribution e k = 0) \<and>
    (\<forall>r' j'. fill_in_contribution_to_residuals e Dummy_matrix residuals = Inr (r', j') \<longrightarrow>
       r' = residuals) \<and>
    (local_eqns_below e (length residuals) \<longrightarrow>
       fill_in_contribution_to_residuals e Dummy_matrix residuals =
         Inr (residuals, Dummy_matrix))"
  using assms
  by (auto simp: fill_in_contribution_to_residuals_def fill_in_generic_eq get_flux_def
      zero_complex.code spec_residuals_null_flux dest: fill_in_generic_null_flux)

theorem null_flux_contributes_nothing_witness:
  "Flux_fct_pt (scenario_flux_element\<lparr>Flux_fct_pt := None\<rparr>) = None \<and>
   local_eqns_below (scenario_flux_element\<lparr>Flux_fct_pt := None\<rparr>) (length [5, 7 :: real]) \<and>
   fill_in_contribution_to_residuals (scenario_flux_element\<lparr>Flux_fct_pt := None\<rparr>) [] [5, 7] =
     Inr ([5, 7], [])"
proof -
  have 1: "Flux_fct_pt (scenario_flux_element\<lparr>Flux_fct_pt := None\<rparr>) = None"
    by simp
  have 2: "local_eqns_below (scenario_flux_element\<lparr>Flux_fct_pt := None\<rparr>) (length [5, 7 :: real])"
    by (simp add: local_eqns_below_def scenario_defs)
  from null_flux_contributes_nothing [OF 1, where x = "[]" and flux = 0
      and Dummy_matrix = "[]" and residuals = "[5, 7]"] 2
  show ?thesis using 1 by simp
qed

text \<open>
  Claim C5. A channel whose equation number is negative is skipped: the step for a node
  with a pinned real (imaginary) part is the update of the other channel alone. When every
  node of the face is pinned in both channels the residual vector is given back unchanged,
  and in every call an entry that is no free equation of a node of the face keeps its value.
\<close>

theorem pinned_dofs_receive_nothing:
  "(nodal_local_eqn e l (fst (U_index_pml_fourier_decomposed_helmholtz e)) < 0 \<longrightarrow>
      flux_add_node e flux testf r W l residuals =
        (if nodal_local_eqn e l (snd (U_index_pml_fourier_decomposed_helmholtz e)) \<ge> 0
         then vector_minus_eq residuals
                (nodal_local_eqn e l (snd (U_index_pml_fourier_decomposed_helmholtz e)))
                (Im flux * testf l * r * W)
         else Inr residuals)) \<and>
   (nodal_local_eqn e l (snd (U_index_pml_fourier_decomposed_helmholtz e)) < 0 \<longrightarrow>
      flux_add_node e flux testf r W l residuals =
        (if nodal_local_eqn e l (fst (U_index_pml_fourier_decomposed_helmholtz e)) \<ge> 0
         then vector_minus_eq residuals
                (nodal_local_eqn e l (fst (U_index_pml_fourier_decomposed_helmholtz e)))
                (Re flux * testf l * r * W)
         else Inr residuals)) \<and>
   ((\<forall>l<nnode e.
       nodal_local_eqn e l (fst (U_index_pml_fourier_decomposed_helmholtz e)) < 0 \<and>
       nodal_local_eqn e l (snd (U_index_pml_fourier_decomposed_helmholtz e)) < 0) \<longrightarrow>
      fill_in_contribution_to_residuals e Dummy_matrix residuals =
        Inr (residuals, Dummy_matrix)) \<and>
   (\<forall>r' j' k. fill_in_contribution_to_residuals e Dummy_matrix residuals = Inr (r', j') \<and>
      (\<forall>l<nnode e.
         nodal_local_eqn e l (fst (U_index_pml_fourier_decomposed_helmholtz e)) \<noteq> int k \<and>
         nodal_local_eqn e l (snd (U_index_pml_fourier_decomposed_helmholtz e)) \<noteq> int k) \<longrightarrow>
      length r' = length residuals \<and> r' ! k = residuals ! k)"
proof (intro conjI allI impI)
  fix r' j' k
  assume "fill_in_contribution_to_residuals e Dummy_matrix residuals = Inr (r', j') \<and>
      (\<forall>l<nnode e.
         nodal_local_eqn e l (fst (U_index_pml_fourier_decomposed_helmholtz e)) \<noteq> int k \<and>
         nodal_local_eqn e l (snd (U_index_pml_fourier_decomposed_helmholtz e)) \<noteq> int k)"
  then have "length r' = length residuals \<and> r' ! k = residuals ! k"
    unfolding fill_in_contribution_to_residuals_def
    using fill_in_generic_frame [of e residuals Dummy_matrix 0 r' j' k] by blast
  then show "length r' = length residuals" and "r' ! k = residuals ! k"
    by simp_all
qed (auto simp: flux_add_node_def Let_def fill_in_contribution_to_residuals_def
    fill_in_generic_pinned split: sum.splits)

theorem pinned_dofs_receive_nothing_witness:
  "nnode (scenario_flux_element\<lparr>nodal_local_eqn := \<lambda>l i. - 1\<rparr>) = 1 \<and>
   nodal_local_eqn (scenario_flux_element\<lparr>nodal_local_eqn := \<lambda>l i. - 1\<rparr>) 0
     (fst (U_index_pml_fourier_decomposed_helmholtz
        (scenario_flux_element\<lparr>nodal_local_eqn := \<lambda>l i. - 1\<rparr>))) < 0 \<and>
   nodal_local_eqn (scenario_flux_element\<lparr>nodal_local_eqn := \<lambda>l i. - 1\<rparr>) 0
     (snd (U_index_pml_fourier_decomposed_helmholtz
        (scenario_flux_element\<lparr>nodal_local_eqn := \<lambda>l i. - 1\<rparr>))) < 0 \<and>
   flux_add_node (scenario_flux_element\<lparr>nodal_local_eqn := \<lambda>l i. - 1\<rparr>)
     (Complex 3 (- 4)) (\<lambda>l. 1) 2 1 0 [5, 7] = Inr [5, 7] \<and>
   fill_in_contribution_to_residuals (scenario_flux_element\<lparr>nodal_local_eqn := \<lambda>l i. - 1\<rparr>)
     [] [5, 7] = Inr ([5, 7], [])"
proof -
  let ?e = "scenario_flux_element\<lparr>nodal_local_eqn := \<lambda>l i. - 1\<rparr>"
  have 1: "\<forall>l<nnode ?e.
      nodal_local_eqn ?e l (fst (U_index_pml_fourier_decomposed_helmholtz ?e)) < 0 \<and>
      nodal_local_eqn ?e l (snd (U_index_pml_fourier_decomposed_helmholtz ?e)) < 0"
    by simp
  from pinned_dofs_receive_nothing [where e = ?e and l = 0 and flux = "Complex 3 (- 4)"
      and testf = "\<lambda>l. 1" and r = 2 and W = 1 and residuals = "[5, 7]" and Dummy_matrix = "[]"] 1
  show ?thesis by (simp add: scenario_defs)
qed

text \<open>
  Claim C10. \<^verbatim>\<open>fill_in_contribution_to_jacobian\<close> fails exactly when
  \<^verbatim>\<open>fill_in_contribution_to_residuals\<close> fails, and otherwise gives the same residual
  vector and the Jacobian as it was passed in; the residuals computed by the generic
  routine depend neither on the flag nor on the matrix.
\<close>

theorem jacobian_call_same_residuals:
  "(case fill_in_contribution_to_jacobian e residuals jacobian of
      Inl err \<Rightarrow> fill_in_contribution_to_residuals e Dummy_matrix residuals = Inl err
    | Inr (r', j') \<Rightarrow>
        j' = jacobian \<and>
        fill_in_contribution_to_residuals e Dummy_matrix residuals = Inr (r', Dummy_matrix)) \<and>
   map_sum id fst
     (fill_in_generic_residual_contribution_pml_fourier_decomposed_helmholtz_flux
        e residuals jacobian flag) =
   map_sum id fst
     (fill_in_generic_residual_contribution_pml_fourier_decomposed_helmholtz_flux
        e residuals jacobian' flag')"
  by (auto simp: fill_in_contribution_to_jacobian_def fill_in_contribution_to_residuals_def
      fill_in_generic_residual_contribution_pml_fourier_decomposed_helmholtz_flux_def
      split: sum.splits)

theorem jacobian_call_same_residuals_witness:
  "fill_in_contribution_to_jacobian scenario_flux_element [0, 0] [[1, 2], [3, 4]] =
     Inr ([- 6, 8], [[1, 2], [3, 4]]) \<and>
   fill_in_contribution_to_residuals scenario_flux_element [] [0, 0] = Inr ([- 6, 8], [])"
proof -
  have "fill_in_contribution_to_jacobian scenario_flux_element [0, 0] [[1, 2], [3, 4]] =
      Inr ([- 6, 8], [[1, 2], [3, 4]])"
    by (simp add: fill_in_contribution_to_jacobian_def
        fill_in_generic_residual_contribution_pml_fourier_decomposed_helmholtz_flux_def
        flux_add_point_def flux_add_node_def shape_and_test_def flux_interpolated_x_def
        get_flux_def vector_minus_eq_def scenario_defs upt_rec)
  with jacobian_call_same_residuals
    [where e = scenario_flux_element and residuals = "[0, 0]" and jacobian = "[[1, 2], [3, 4]]"
       and Dummy_matrix = "[]" and flag = 1 and jacobian' = "[]" and flag' = 0]
  show ?thesis by simp
qed

text \<open>
  Claim C6. The empty constructor of either element throws: it gives the error and no
  element.
\<close>

theorem empty_constructors_fail:
  "PMLFourierDecomposedHelmholtzFluxElement_empty =
     Inl (OomphLibError
       (''Don'' @ [CHR 0x27] @ ''t call empty constructor for '' @
        ''PMLFourierDecomposedHelmholtzFluxElement'')) \<and>
   PMLFourierDecomposedHelmholtzPowerMonitorElement_empty =
     Inl (OomphLibError
       (''Don'' @ [CHR 0x27] @ ''t call empty constructor for '' @
        ''PMLFourierDecomposedHelmholtzPowerMonitorElement'')) \<and>
   (\<forall>e. PMLFourierDecomposedHelmholtzFluxElement_empty \<noteq> Inr e) \<and> (\<forall>e. PMLFourierDecomposedHelmholtzPowerMonitorElement_empty \<noteq> Inr e)"
  by (simp add: PMLFourierDecomposedHelmholtzFluxElement_empty_def PMLFourierDecomposedHelmholtzPowerMonitorElement_empty_def)

text \<open>
  Claim C7. The constructor of either element throws when the bulk element is no
  \<^verbatim>\<open>PMLFourierDecomposedHelmholtzEquations\<close>; otherwise it gives the face element
  that the bulk element built, holding the index pair read from the bulk element (and, in
  the flux element, a null flux function).
\<close>

theorem constructors_need_equations:
  "(\<not> is_Equations bulk_el_pt \<longrightarrow>
      PMLFourierDecomposedHelmholtzFluxElement_ctor build_face_element bulk_el_pt face_index =
        Inl (OomphLibError
          ''Bulk element must inherit from PMLFourierDecomposedHelmholtzEquations.'') \<and>
      PMLFourierDecomposedHelmholtzPowerMonitorElement_ctor build_face_element bulk_el_pt face_index =
        Inl (OomphLibError
          ''Bulk element must inherit from PMLFourierDecomposedHelmholtzEquations.'')) \<and>
   (is_Equations bulk_el_pt \<longrightarrow>
      (\<exists>e. PMLFourierDecomposedHelmholtzFluxElement_ctor build_face_element bulk_el_pt face_index = Inr e \<and>
         U_index_pml_fourier_decomposed_helmholtz e = u_index_pml_fourier_decomposed_helmholtz bulk_el_pt \<and>
         Flux_fct_pt e = None \<and>
         FaceElement.truncate e = build_face_element bulk_el_pt face_index) \<and>
      (\<exists>e. PMLFourierDecomposedHelmholtzPowerMonitorElement_ctor build_face_element bulk_el_pt face_index = Inr e \<and>
         U_index_pml_fourier_decomposed_helmholtz_pm e = u_index_pml_fourier_decomposed_helmholtz bulk_el_pt \<and>
         FaceElement.truncate e = build_face_element bulk_el_pt face_index))"
  by (simp add: PMLFourierDecomposedHelmholtzFluxElement_ctor_def PMLFourierDecomposedHelmholtzPowerMonitorElement_ctor_def Let_def
      FaceElement.defs PMLFourierDecomposedHelmholtzFluxElement.defs PMLFourierDecomposedHelmholtzPowerMonitorElement.defs)

theorem constructors_need_equations_witness:
  "\<not> is_Equations (scenario_bulk\<lparr>is_Equations := False\<rparr>) \<and>
   PMLFourierDecomposedHelmholtzFluxElement_ctor (\<lambda>bulk face. scenario_face 2) (scenario_bulk\<lparr>is_Equations := False\<rparr>) 1 =
     Inl (OomphLibError
       ''Bulk element must inherit from PMLFourierDecomposedHelmholtzEquations.'') \<and>
   PMLFourierDecomposedHelmholtzPowerMonitorElement_ctor (\<lambda>bulk face. scenario_face 2)
       (scenario_bulk\<lparr>is_Equations := False\<rparr>) 1 =
     Inl (OomphLibError
       ''Bulk element must inherit from PMLFourierDecomposedHelmholtzEquations.'') \<and>
   is_Equations (scenario_bulk\<lparr>u_index_pml_fourier_decomposed_helmholtz := (3, 4)\<rparr>) \<and>
   (\<exists>e. PMLFourierDecomposedHelmholtzFluxElement_ctor (\<lambda>bulk face. scenario_face 2)
           (scenario_bulk\<lparr>u_index_pml_fourier_decomposed_helmholtz := (3, 4)\<rparr>) 1 = Inr e \<and>
        U_index_pml_fourier_decomposed_helmholtz e = (3, 4)) \<and>
   (\<exists>e. PMLFourierDecomposedHelmholtzPowerMonitorElement_ctor (\<lambda>bulk face. scenario_face 2)
           (scenario_bulk\<lparr>u_index_pml_fourier_decomposed_helmholtz := (3, 4)\<rparr>) 1 = Inr e \<and>
        U_index_pml_fourier_decomposed_helmholtz_pm e = (3, 4))"
proof -
  have 1: "\<not> is_Equations (scenario_bulk\<lparr>is_Equations := False\<rparr>)"
    by simp
  have 2: "is_Equations (scenario_bulk\<lparr>u_index_pml_fourier_decomposed_helmholtz := (3, 4)\<rparr>)"
    by (simp add: scenario_bulk_def)
  have 3: "u_index_pml_fourier_decomposed_helmholtz (scenario_bulk\<lparr>u_index_pml_fourier_decomposed_helmholtz := (3, 4)\<rparr>) = (3, 4)"
    by simp
  from constructors_need_equations
         [where bulk_el_pt = "scenario_bulk\<lparr>is_Equations := False\<rparr>"
            and build_face_element = "\<lambda>bulk face. scenario_face 2" and face_index = 1]
       constructors_need_equations
         [where bulk_el_pt = "scenario_bulk\<lparr>u_index_pml_fourier_decomposed_helmholtz := (3, 4)\<rparr>"
            and build_face_element = "\<lambda>bulk face. scenario_face 2" and face_index = 1]
       1 2
  show ?thesis unfolding 3 by blast
qed


subsection \<open>The power monitor\<close>

lemma complex_times_double_eq: "complex_times_double z d = z * complex_of_real d"
  by (simp add: complex_times_double_def complex_eq_iff)

lemma fold_add_upt:
  "fold (\<lambda>l acc. acc + f l) [0..<n] (a :: complex) = a + (\<Sum>l<n. f l)"
  by (induction n) (simp_all add: add.assoc)

lemma power_interpolated_phi_eq:
  "power_interpolated_phi e (shape e (spec_s_power e ipt)) = spec_field e ipt"
  by (simp add: power_interpolated_phi_def spec_field_def Let_def fold_add_upt
      complex_times_double_eq zero_complex.code [symmetric])

lemma fold_update_upt:
  "m \<le> length v \<Longrightarrow>
     fold (\<lambda>i v. v[i := v ! i + f i]) [0..<m] v =
       map (\<lambda>i. if i < m then v ! i + f i else v ! i) [0..<length (v :: complex list)]"
proof (induction m)
  case 0
  then show ?case by (auto intro!: nth_equalityI)
next
  case (Suc m)
  then show ?case by (auto intro!: nth_equalityI simp: nth_list_update)
qed

lemma fold_update_all:
  "length v = d \<Longrightarrow>
     fold (\<lambda>i v. v[i := v ! i + f i]) [0..<d] v = map (\<lambda>i. v ! i + f i) [0..<d]"
  for v :: "complex list"
  using fold_update_upt [of d v f] by (auto intro!: nth_equalityI)

lemma fold_gradient:
  "fold (\<lambda>l v. fold (\<lambda>i v. v[i := v ! i + g l i]) [0..<d] v) [0..<n] (replicate d 0) =
     map (\<lambda>i. \<Sum>l<n. g l i) [0..<d]"
  for g :: "nat \<Rightarrow> nat \<Rightarrow> complex"
proof (induction n)
  case 0
  then show ?case by (auto intro!: nth_equalityI)
next
  case (Suc n)
  then show ?case by (auto simp: fold_update_all intro!: nth_equalityI)
qed

lemma power_interpolated_dphidx_eq:
  "power_interpolated_dphidx (bulk_element_pt e)
     (snd (bulk_dshape_eulerian (bulk_element_pt e)
        (local_coordinate_in_bulk e (spec_s_power e ipt)))) =
   map (spec_gradient e ipt) [0..<bulk_dim (bulk_element_pt e)]"
  unfolding power_interpolated_dphidx_def Let_def zero_complex.code [symmetric] fold_gradient
  by (simp add: spec_gradient_def complex_times_double_eq Let_def)

lemma power_dphi_dn_upt:
  "d \<le> length unit_normal \<Longrightarrow>
     power_dphi_dn d dphidx unit_normal =
       Inr (\<Sum>i<d. dphidx ! i * complex_of_real (unit_normal ! i))"
proof (induction d)
  case 0
  then show ?case by (simp add: power_dphi_dn_def zero_complex.code)
next
  case (Suc d)
  then have "power_dphi_dn d dphidx unit_normal =
       Inr (\<Sum>i<d. dphidx ! i * complex_of_real (unit_normal ! i))"
    by simp
  then show ?case
    using Suc.prems unfolding power_dphi_dn_def for_each_upt_Suc
    by (simp add: vector_at_def complex_times_double_eq)
qed

lemma power_dphi_dn_eq:
  assumes "bulk_dim (bulk_element_pt e) \<le> length (outer_unit_normal e (spec_s_power e ipt))"
  shows "power_dphi_dn (bulk_dim (bulk_element_pt e))
           (map (spec_gradient e ipt) [0..<bulk_dim (bulk_element_pt e)])
           (outer_unit_normal e (spec_s_power e ipt)) =
         Inr (spec_normal_derivative e ipt)"
  by (simp add: power_dphi_dn_upt [OF assms] spec_normal_derivative_def)

lemma power_add_point_eq:
  assumes "bulk_dim (bulk_element_pt e) \<le> length (outer_unit_normal e (spec_s_power e ipt))"
    and "2 \<le> length (interpolated_x e (spec_s_power e ipt))"
  shows "power_add_point e ipt (p, outfile) =
     Inr (p + spec_power_term e ipt, add_line outfile [spec_line e ipt])"
proof -
  obtain psi_bulk dpsi where d: "bulk_dshape_eulerian (bulk_element_pt e)
        (local_coordinate_in_bulk e (spec_s_power e ipt)) = (psi_bulk, dpsi)"
    by (cases "bulk_dshape_eulerian (bulk_element_pt e)
        (local_coordinate_in_bulk e (spec_s_power e ipt))")
  have g: "power_interpolated_dphidx (bulk_element_pt e) dpsi =
      map (spec_gradient e ipt) [0..<bulk_dim (bulk_element_pt e)]"
    using power_interpolated_dphidx_eq [of e ipt] by (simp add: d)
  have x: "vector_at (interpolated_x e (spec_s_power e ipt)) 0 = Inr (spec_x e ipt 0)"
    "vector_at (interpolated_x e (spec_s_power e ipt)) (Suc 0) = Inr (spec_x e ipt 1)"
  proof -
    have "0 < length (interpolated_x e (spec_s_power e ipt))"
      "1 < length (interpolated_x e (spec_s_power e ipt))"
      using assms(2) by linarith+
    then show "vector_at (interpolated_x e (spec_s_power e ipt)) 0 = Inr (spec_x e ipt 0)"
      "vector_at (interpolated_x e (spec_s_power e ipt)) (Suc 0) = Inr (spec_x e ipt 1)"
      unfolding vector_at_def spec_x_def by simp_all
  qed
  have s: "map (\<lambda>i. knot (integral_pt e) ipt i) [0..<unat (node0_ndim e - 1)] =
      spec_s_power e ipt"
    by (simp add: spec_s_power_def)
  have i: "power_integrand (spec_field e ipt) (spec_normal_derivative e ipt) =
      spec_integrand e ipt"
    by (simp add: power_integrand_def spec_integrand_def)
  show ?thesis
    unfolding power_add_point_def Let_def s
    by (simp add: d g power_dphi_dn_eq [OF assms(1)] x power_interpolated_phi_eq i
        spec_power_term_def spec_line_def add_line_def mult.assoc)
qed

lemma add_line_append: "add_line (add_line outfile xs) ys = add_line outfile (xs @ ys)"
  by (simp add: add_line_def)

lemma power_loop_eq:
  assumes "\<forall>ipt<n.
      bulk_dim (bulk_element_pt e) \<le> length (outer_unit_normal e (spec_s_power e ipt)) \<and>
      2 \<le> length (interpolated_x e (spec_s_power e ipt))"
  shows "for_each (power_add_point e) [0..<n] (p, outfile) =
     Inr (p + (\<Sum>ipt<n. spec_power_term e ipt), add_line outfile (map (spec_line e) [0..<n]))"
  using assms
proof (induction n)
  case 0
  then show ?case by (simp add: add_line_def)
next
  case (Suc n)
  then have "for_each (power_add_point e) [0..<n] (p, outfile) =
     Inr (p + (\<Sum>ipt<n. spec_power_term e ipt), add_line outfile (map (spec_line e) [0..<n]))"
    by simp
  then show ?case
    unfolding for_each_upt_Suc using Suc.prems
    by (simp add: power_add_point_eq add_line_append add.assoc)
qed

lemma global_power_contribution_outfile_eq:
  assumes "power_well_formed e"
  shows "global_power_contribution_outfile e outfile = Inr (spec_power e, spec_outfile e outfile)"
proof -
  have 1: "\<forall>ipt<nweight (integral_pt e).
      bulk_dim (bulk_element_pt e) \<le> length (outer_unit_normal e (spec_s_power e ipt)) \<and>
      2 \<le> length (interpolated_x e (spec_s_power e ipt))"
    using assms by (simp add: power_well_formed_def)
  have 2: "(if is_open outfile then outfile\<lparr>written := written outfile @ [ZONE]\<rparr> else outfile) =
      add_line outfile [ZONE]"
    by (simp add: add_line_def)
  have 3: "is_ELEMENT (bulk_element_pt e)"
    using assms by (simp add: power_well_formed_def)
  show ?thesis
    unfolding global_power_contribution_outfile_def Let_def 2
    by (simp add: 3 power_loop_eq [OF 1] add_line_append spec_power_def spec_outfile_def
        add_line_def)
qed

lemma power_add_point_closed:
  assumes "\<not> is_open outfile" and "\<not> is_open outfile'"
  shows "power_add_point e ipt (p, outfile) =
     (case power_add_point e ipt (p, outfile') of
        Inl err \<Rightarrow> Inl err
      | Inr (q, _) \<Rightarrow> Inr (q, outfile))"
  using assms
  by (simp add: power_add_point_def Let_def split: sum.splits prod.splits)

lemma power_loop_closed:
  assumes "\<not> is_open outfile" and "\<not> is_open outfile'"
  shows "for_each (power_add_point e) xs (p, outfile) =
     (case for_each (power_add_point e) xs (p, outfile') of
        Inl err \<Rightarrow> Inl err
      | Inr (q, _) \<Rightarrow> Inr (q, outfile))"
proof (induction xs arbitrary: p)
  case Nil
  then show ?case by simp
next
  case (Cons ipt xs)
  show ?case
  proof (cases "power_add_point e ipt (p, outfile')")
    case (Inl err)
    then show ?thesis
      using power_add_point_closed [OF assms, of e ipt p] by simp
  next
    case (Inr st)
    obtain q o' where st: "st = (q, o')" by (cases st)
    have 1: "power_add_point e ipt (p, outfile) = Inr (q, outfile)"
      using power_add_point_closed [OF assms, of e ipt p] Inr st by simp
    have 2: "o' = outfile'"
      using Inr st assms(2)
      by (auto simp: power_add_point_def Let_def split: sum.splits prod.splits)
    show ?thesis
      using Cons.IH [of q] by (simp add: 1 Inr st 2)
  qed
qed

lemma scenario_power_value:
  "global_power_contribution scenario_power_element = Inr (2 * pi)"
  by (simp add: global_power_contribution_def global_power_contribution_outfile_def
        power_add_point_def power_dphi_dn_def power_interpolated_dphidx_def
        power_interpolated_phi_def power_integrand_def complex_times_double_def vector_at_def
        scenario_defs upt_rec Let_def)

lemma scenario_power_well_formed: "power_well_formed scenario_power_element"
  by (simp add: power_well_formed_def scenario_defs)

lemma Im_field_real:
  assumes "\<forall>l<nnode e. nodal_value e l (snd (U_index_pml_fourier_decomposed_helmholtz_pm e)) = 0"
  shows "Im (spec_field e ipt) = 0"
  using assms by (simp add: spec_field_def)

lemma Im_normal_derivative_real:
  assumes "\<forall>l<bulk_nnode (bulk_element_pt e).
      bulk_nodal_value (bulk_element_pt e) l (snd (u_index_pml_fourier_decomposed_helmholtz (bulk_element_pt e))) = 0"
  shows "Im (spec_normal_derivative e ipt) = 0"
  using assms by (simp add: spec_normal_derivative_def spec_gradient_def Let_def)

text \<open>
  Claim C2. On a well-formed element the call gives the sum, over the integration points,
  of \<open>pi\<close> times the radial coordinate, the integrand, the weight and the Jacobian,
  where the integrand is \<open>Re(field) * Im(normal derivative) - Im(field) * Re(normal
  derivative)\<close>, the field is interpolated from the nodes of the face and the normal
  derivative is the gradient, interpolated from the nodes of the bulk element, against the
  unit normal. In the scenario (one point, weight 1, Jacobian 1, field \<open>(1, 0)\<close>,
  normal derivative \<open>(0, 2)\<close>, radial coordinate 1) the power is \<open>2 * pi\<close>.
\<close>

theorem power_contribution_sums:
  "(power_well_formed e \<longrightarrow>
      global_power_contribution_outfile e outfile = Inr (spec_power e, spec_outfile e outfile) \<and>
      global_power_contribution e = Inr (spec_power e)) \<and>
   global_power_contribution scenario_power_element = Inr (2 * pi)"
proof
  show "power_well_formed e \<longrightarrow>
      global_power_contribution_outfile e outfile = Inr (spec_power e, spec_outfile e outfile) \<and>
      global_power_contribution e = Inr (spec_power e)"
    by (simp add: global_power_contribution_def global_power_contribution_outfile_eq)
  show "global_power_contribution scenario_power_element = Inr (2 * pi)"
    by (rule scenario_power_value)
qed

theorem power_contribution_sums_witness:
  "power_well_formed scenario_power_element \<and>
   spec_field scenario_power_element 0 = Complex 1 0 \<and>
   spec_normal_derivative scenario_power_element 0 = Complex 0 2 \<and>
   spec_x scenario_power_element 0 0 = 1 \<and>
   spec_integrand scenario_power_element 0 = 2 \<and>
   spec_power scenario_power_element = 2 * pi \<and>
   global_power_contribution scenario_power_element = Inr (2 * pi)"
proof -
  have 1: "spec_field scenario_power_element 0 = Complex 1 0"
    by (simp add: spec_field_def scenario_defs complex_eq_iff)
  have 2: "spec_normal_derivative scenario_power_element 0 = Complex 0 2"
    by (simp add: spec_normal_derivative_def spec_gradient_def scenario_defs complex_eq_iff
        lessThan_Suc numeral_2_eq_2)
  have 3: "spec_x scenario_power_element 0 0 = 1"
    by (simp add: spec_x_def scenario_defs)
  have 4: "spec_integrand scenario_power_element 0 = 2"
    by (simp add: spec_integrand_def 1 2)
  have n: "nweight (integral_pt scenario_power_element) = 1"
    and w: "weight (integral_pt scenario_power_element) 0 = 1"
    and J: "J_eulerian scenario_power_element s = 1" for s
    by (simp_all add: scenario_defs)
  have 5: "spec_power scenario_power_element = 2 * pi"
    by (simp add: spec_power_def spec_power_term_def n w J 3 4)
  from power_contribution_sums [where e = scenario_power_element]
    scenario_power_well_formed 1 2 3 4 5
  show ?thesis by simp
qed

text \<open>
  Claim C8. With an output file that is not open, the call with the file gives the power
  that the call without a file gives (and fails when that one fails), and leaves the file
  as it was: nothing is written.
\<close>

theorem closed_outfile_same_power:
  assumes "\<not> is_open outfile"
  shows "global_power_contribution_outfile e outfile =
     (case global_power_contribution e of
        Inl err \<Rightarrow> Inl err
      | Inr result \<Rightarrow> Inr (result, outfile))"
proof -
  let ?closed = "\<lparr>is_open = False, written = []\<rparr>"
  have "for_each (power_add_point e) xs (0, outfile) =
     (case for_each (power_add_point e) xs (0, ?closed) of
        Inl err \<Rightarrow> Inl err
      | Inr (q, _) \<Rightarrow> Inr (q, outfile))" for xs
    by (rule power_loop_closed) (simp_all add: assms)
  then show ?thesis
    using assms
    by (simp add: global_power_contribution_def global_power_contribution_outfile_def Let_def
        split: sum.splits prod.splits)
qed

theorem closed_outfile_same_power_witness:
  "\<not> is_open \<lparr>is_open = False, written = [ZONE]\<rparr> \<and>
   global_power_contribution_outfile scenario_power_element
       \<lparr>is_open = False, written = [ZONE]\<rparr> =
     Inr (2 * pi, \<lparr>is_open = False, written = [ZONE]\<rparr>) \<and>
   global_power_contribution scenario_power_element = Inr (2 * pi)"
proof -
  have 1: "\<not> is_open \<lparr>is_open = False, written = [ZONE]\<rparr>"
    by simp
  from closed_outfile_same_power [OF 1, of scenario_power_element] scenario_power_value
  show ?thesis by simp
qed

text \<open>
  Claim C9. When the field and its normal derivative have no imaginary part the integrand
  is zero. So on a well-formed element where that holds at every integration point, every
  integrand (and every line written) is zero and so is the power; and it holds at every
  point when the imaginary parts of all nodal values, of the face and of the bulk element,
  are zero.
\<close>

theorem real_field_no_power:
  "(Im interpolated_phi = 0 \<and> Im dphi_dn = 0 \<longrightarrow>
      power_integrand interpolated_phi dphi_dn = 0) \<and>
   (power_well_formed e \<and>
    (\<forall>ipt<nweight (integral_pt e).
       Im (spec_field e ipt) = 0 \<and> Im (spec_normal_derivative e ipt) = 0) \<longrightarrow>
      (\<forall>ipt<nweight (integral_pt e).
         spec_integrand e ipt = 0 \<and>
         spec_line e ipt =
           Line (spec_x e ipt 0) (spec_x e ipt 1) (atan2 (spec_x e ipt 0) (spec_x e ipt 1)) 0) \<and>
      global_power_contribution_outfile e outfile = Inr (0, spec_outfile e outfile) \<and>
      global_power_contribution e = Inr 0) \<and>
   ((\<forall>l<nnode e. nodal_value e l (snd (U_index_pml_fourier_decomposed_helmholtz_pm e)) = 0) \<and>
    (\<forall>l<bulk_nnode (bulk_element_pt e).
       bulk_nodal_value (bulk_element_pt e) l (snd (u_index_pml_fourier_decomposed_helmholtz (bulk_element_pt e))) = 0) \<longrightarrow>
      (\<forall>ipt. Im (spec_field e ipt) = 0 \<and> Im (spec_normal_derivative e ipt) = 0))"
proof (intro conjI impI)
  assume "Im interpolated_phi = 0 \<and> Im dphi_dn = 0"
  then show "power_integrand interpolated_phi dphi_dn = 0"
    by (simp add: power_integrand_def)
next
  assume a: "power_well_formed e \<and>
    (\<forall>ipt<nweight (integral_pt e).
       Im (spec_field e ipt) = 0 \<and> Im (spec_normal_derivative e ipt) = 0)"
  then have 0: "spec_integrand e ipt = 0" if "ipt < nweight (integral_pt e)" for ipt
    using that by (simp add: spec_integrand_def)
  then show "\<forall>ipt<nweight (integral_pt e).
         spec_integrand e ipt = 0 \<and>
         spec_line e ipt =
           Line (spec_x e ipt 0) (spec_x e ipt 1) (atan2 (spec_x e ipt 0) (spec_x e ipt 1)) 0"
    by (simp add: spec_line_def)
  have "spec_power e = 0"
    by (simp add: spec_power_def spec_power_term_def 0)
  then show "global_power_contribution_outfile e outfile = Inr (0, spec_outfile e outfile)"
    "global_power_contribution e = Inr 0"
    using a by (simp_all add: global_power_contribution_def global_power_contribution_outfile_eq)
next
  assume "(\<forall>l<nnode e. nodal_value e l (snd (U_index_pml_fourier_decomposed_helmholtz_pm e)) = 0) \<and>
    (\<forall>l<bulk_nnode (bulk_element_pt e).
       bulk_nodal_value (bulk_element_pt e) l (snd (u_index_pml_fourier_decomposed_helmholtz (bulk_element_pt e))) = 0)"
  then show "\<forall>ipt. Im (spec_field e ipt) = 0 \<and> Im (spec_normal_derivative e ipt) = 0"
    by (simp add: Im_field_real Im_normal_derivative_real)
qed

theorem real_field_no_power_witness:
  "power_well_formed scenario_real_element \<and>
   nweight (integral_pt scenario_real_element) = 1 \<and>
   spec_field scenario_real_element 0 = Complex 1 0 \<and>
   spec_normal_derivative scenario_real_element 0 = Complex 2 0 \<and>
   spec_integrand scenario_real_element 0 = 0 \<and>
   power_integrand (Complex 1 0) (Complex 2 0) = 0 \<and>
   global_power_contribution scenario_real_element = Inr 0"
proof -
  have 1: "power_well_formed scenario_real_element"
    by (simp add: power_well_formed_def scenario_real_element_def scenario_defs)
  have 2: "nweight (integral_pt scenario_real_element) = 1"
    by (simp add: scenario_real_element_def scenario_defs)
  have 3: "spec_field scenario_real_element 0 = Complex 1 0"
    by (simp add: spec_field_def scenario_real_element_def scenario_defs complex_eq_iff)
  have 4: "spec_normal_derivative scenario_real_element 0 = Complex 2 0"
    by (simp add: spec_normal_derivative_def spec_gradient_def scenario_real_element_def
        scenario_defs complex_eq_iff lessThan_Suc numeral_2_eq_2)
  have 5: "\<forall>ipt<nweight (integral_pt scenario_real_element).
       Im (spec_field scenario_real_element ipt) = 0 \<and>
       Im (spec_normal_derivative scenario_real_element ipt) = 0"
    unfolding 2 using 3 4 by simp
  from real_field_no_power [where e = scenario_real_element and interpolated_phi = "Complex 1 0"
      and dphi_dn = "Complex 2 0"] 1 2 3 4 5
  show ?thesis by simp
qed

end
